theory Spec2Isabelle
  imports Main "HOL-Library.Word"
begin

unbundle bit_operations_syntax

section \<open>EBCDIC dataset converter: data model\<close>

text \<open>
  The development follows \<^verbatim>\<open>ebcdic_dataset_converter.py\<close>. Python \<^verbatim>\<open>bytes\<close> are lists of
  8-bit words, Python \<^verbatim>\<open>int\<close> is \<^typ>\<open>int\<close>, Python \<^verbatim>\<open>str\<close> is \<^typ>\<open>string\<close>. The
  characters of the model are the code points up to U+00FF, the ones that the codec
  \<^verbatim>\<open>latin1\<close> yields; \<^verbatim>\<open>upper\<close>, \<^verbatim>\<open>strip\<close> and the digits are modelled on this range.
\<close>

type_synonym byte = "8 word"

text \<open>The dataclass \<^verbatim>\<open>LayoutField\<close>.\<close>

record LayoutField =
  name :: string
  level :: string
  type_f :: string
  picture :: string
  length_f :: int
  position :: int
  occurs :: int
  redefines :: "string option"
  value_f :: "string option"
  sign :: "string option"
  usage :: "string option"
  description :: string

section \<open>Python string primitives\<close>

text \<open>
  \<^verbatim>\<open>str.upper\<close>, character by character: the letters a to z, and the letters U+00E0 to
  U+00FE but the division sign. The upper case of U+00B5, U+00DF and U+00FF lies beyond
  U+00FF; these three characters are left as they are.
\<close>

definition upper_char :: "char \<Rightarrow> char" where
  "upper_char c =
     (if 97 \<le> (of_char c :: nat) \<and> (of_char c :: nat) \<le> 122
      then char_of ((of_char c :: nat) - 32)
      else if 224 \<le> (of_char c :: nat) \<and> (of_char c :: nat) \<le> 254
              \<and> (of_char c :: nat) \<noteq> 247
      then char_of ((of_char c :: nat) - 32)
      else c)"

definition upper :: "string \<Rightarrow> string" where
  "upper s = map upper_char s"

text \<open>
  \<^verbatim>\<open>str.isspace\<close>: tab to carriage return, the four separators, space, next line
  (U+0085) and no-break space (U+00A0).
\<close>

definition isspace :: "char \<Rightarrow> bool" where
  "isspace c =
     ((9 \<le> (of_char c :: nat) \<and> (of_char c :: nat) \<le> 13)
      \<or> (28 \<le> (of_char c :: nat) \<and> (of_char c :: nat) \<le> 32)
      \<or> (of_char c :: nat) = 133
      \<or> (of_char c :: nat) = 160)"

definition lstrip :: "string \<Rightarrow> string" where
  "lstrip s = dropWhile isspace s"

definition rstrip :: "string \<Rightarrow> string" where
  "rstrip s = rev (dropWhile isspace (rev s))"

definition strip :: "string \<Rightarrow> string" where
  "strip s = lstrip (rstrip s)"

text \<open>\<^verbatim>\<open>s.replace(c, '')\<close> for a single character \<^verbatim>\<open>c\<close>.\<close>

definition remove_char :: "char \<Rightarrow> string \<Rightarrow> string" where
  "remove_char c s = filter (\<lambda>x. x \<noteq> c) s"

definition isdigit :: "char \<Rightarrow> bool" where
  "isdigit c = (48 \<le> (of_char c :: nat) \<and> (of_char c :: nat) \<le> 57)"

text \<open>The exceptions that leave \<^verbatim>\<open>convert_dataset\<close>.\<close>

datatype error =
  LayoutFileNotFound | LayoutUndecodable | NoFieldDefinitions | IntValueError
  | InputFileNotFound | ZeroDivisionError | OutputDirectoryError | OpenError | CloseError

text \<open>
  \<^verbatim>\<open>int(s)\<close> on a string of decimal digits, the only strings that the patterns hand to
  it: the value, or \<^verbatim>\<open>ValueError\<close> when the string has more than 4300 digits (the
  limit of the interpreter on the conversion of a string to an integer). On any other
  string the model raises as well.
\<close>

definition int_of_digits :: "string \<Rightarrow> error + int" where
  "int_of_digits s =
     (if s = [] \<or> list_ex (\<lambda>c. \<not> isdigit c) s \<or> length s > 4300 then Inl IntValueError
      else Inr (foldl (\<lambda>acc c. 10 * acc + (int (of_char c) - 48)) 0 s))"

section \<open>Picture-clause calculator\<close>

text \<open>
  \<^verbatim>\<open>re.search(r'([9XAN])\((\d+)\)', working_picture)\<close>. A match at the head of a string is
  a class symbol, an opening parenthesis, the maximal non-empty run of digits and a closing
  parenthesis (a shorter run of digits is followed by a digit, never by the parenthesis).
  The search returns the leftmost match: the class symbol and the digits.
\<close>

definition paren_match_here :: "string \<Rightarrow> (char \<times> string) option" where
  "paren_match_here s =
     (case s of
        c # p # rest \<Rightarrow>
          (if c \<in> set ''9XAN'' \<and> p = CHR ''(''
           then (let ds = takeWhile isdigit rest; r = dropWhile isdigit rest
                 in (case r of
                       q # _ \<Rightarrow> (if ds \<noteq> [] \<and> q = CHR '')'' then Some (c, ds) else None)
                     | [] \<Rightarrow> None))
           else None)
      | _ \<Rightarrow> None)"

fun paren_search :: "string \<Rightarrow> (char \<times> string) option" where
  "paren_search [] = None"
| "paren_search (c # cs) =
     (case paren_match_here (c # cs) of
        Some m \<Rightarrow> Some m
      | None \<Rightarrow> paren_search cs)"

text \<open>
  \<^verbatim>\<open>re.findall(pattern + '+', working_picture)\<close> for a one-character pattern: the maximal
  runs of that character, left to right.
\<close>

function findall_runs :: "char \<Rightarrow> string \<Rightarrow> string list" where
  "findall_runs c [] = []"
| "findall_runs c (x # xs) =
     (if x = c
      then (x # takeWhile (\<lambda>y. y = c) xs) # findall_runs c (dropWhile (\<lambda>y. y = c) xs)
      else findall_runs c xs)"
  by pat_completeness auto
termination
  by (relation "measure (\<lambda>(c, s). length s)")
     (auto simp: length_dropWhile_le le_imp_less_Suc)

text \<open>The inner loop \<^verbatim>\<open>for match in matches\<close>, on the pair (total_length, data_type).\<close>

fun count_matches :: "string \<Rightarrow> string list \<Rightarrow> int \<times> string \<Rightarrow> int \<times> string" where
  "count_matches char_type [] acc = acc"
| "count_matches char_type (m # ms) (total_length, data_type) =
     count_matches char_type ms (total_length + int (length m), char_type)"

text \<open>The outer loop over the four (pattern, char_type) pairs.\<close>

fun count_patterns :: "(char \<times> string) list \<Rightarrow> string \<Rightarrow> int \<times> string \<Rightarrow> int \<times> string" where
  "count_patterns [] working_picture acc = acc"
| "count_patterns ((pattern, char_type) # ps) working_picture acc =
     count_patterns ps working_picture
       (count_matches char_type (findall_runs pattern working_picture) acc)"

definition pattern_table :: "(char \<times> string) list" where
  "pattern_table =
     [(CHR ''9'', ''NUMERIC''), (CHR ''X'', ''ALPHANUMERIC''),
      (CHR ''A'', ''ALPHA''), (CHR ''N'', ''NATIONAL'')]"

definition working_picture_of :: "string \<Rightarrow> string" where
  "working_picture_of pic =
     (let picture1 = strip (upper pic);
          working = remove_char (CHR ''V'') picture1
      in (case working of
            c # rest \<Rightarrow> (if c = CHR ''S'' then rest else working)
          | [] \<Rightarrow> working))"

definition parse_picture_clause :: "string \<Rightarrow> error + int \<times> string" where
  "parse_picture_clause pic =
     (let working_picture = working_picture_of pic
      in (case paren_search working_picture of
            Some (char_type, digits) \<Rightarrow>
              (case int_of_digits digits of
                 Inl e \<Rightarrow> Inl e
               | Inr len \<Rightarrow>
                   Inr (len,
                        if char_type = CHR ''9'' then ''NUMERIC''
                        else if char_type = CHR ''X'' then ''ALPHANUMERIC''
                        else if char_type = CHR ''A'' then ''ALPHA''
                        else if char_type = CHR ''N'' then ''NATIONAL''
                        else ''DISPLAY''))
          | None \<Rightarrow>
              (let (total_length, data_type) =
                     count_patterns pattern_table working_picture (0, ''DISPLAY'')
               in Inr (max total_length 1, data_type))))"

definition calculate_field_length :: "'a LayoutField_scheme \<Rightarrow> error + int" where
  "calculate_field_length field =
     (case parse_picture_clause (picture field) of
        Inl e \<Rightarrow> Inl e
      | Inr (base_length, data_type) \<Rightarrow>
          Inr (if type_f field \<in> set [''COMP'', ''COMP-4'', ''COMP-5'']
               then (if base_length \<le> 4 then 2 else if base_length \<le> 9 then 4 else 8)
               else if type_f field = ''COMP-1'' then 4
               else if type_f field = ''COMP-2'' then 8
               else if type_f field = ''COMP-3'' then (base_length + 1) div 2
               else base_length * occurs field))"

text \<open>The dataclass \<^verbatim>\<open>ConversionConfig\<close>.\<close>

record ConversionConfig =
  input_file :: string
  output_file :: string
  layout_file :: "string option"
  record_length :: int
  encoding :: string
  sosi_so :: int
  sosi_si :: int
  convert_sosi_to_space :: bool
  catalog_path :: string
  dataset_name :: "string option"
  volume :: string
  library :: string
  update_catalog :: bool

section \<open>Byte transcoder\<close>

text \<open>
  The dictionary \<^verbatim>\<open>EBCDIC_TO_ASCII_JAK\<close>, in the order of the source (the key
  \<^verbatim>\<open>0x7A\<close> is written twice there, with the same value).
\<close>

definition EBCDIC_TO_ASCII_JAK :: "(byte \<times> byte) list" where
  "EBCDIC_TO_ASCII_JAK =
     [
      (0x00, 0x00), (0x01, 0x01), (0x02, 0x02), (0x03, 0x03), (0x04, 0x37), (0x05, 0x2D),
      (0x06, 0x2E), (0x07, 0x2F), (0x08, 0x16), (0x09, 0x05), (0x0A, 0x25), (0x0B, 0x0B),
      (0x0C, 0x0C), (0x0D, 0x0D), (0x0E, 0x0E), (0x0F, 0x0F), (0x10, 0x10), (0x11, 0x11),
      (0x12, 0x12), (0x13, 0x13), (0x14, 0x3C), (0x15, 0x3D), (0x16, 0x32), (0x17, 0x26),
      (0x18, 0x18), (0x19, 0x19), (0x1A, 0x3F), (0x1B, 0x27), (0x1C, 0x1C), (0x1D, 0x1D),
      (0x1E, 0x1E), (0x1F, 0x1F), (0x40, 0x20), (0x4A, 0x5B), (0x4B, 0x2E), (0x4C, 0x3C),
      (0x4D, 0x28), (0x4E, 0x2B), (0x4F, 0x21), (0x50, 0x26), (0x5A, 0x5D), (0x5B, 0x24),
      (0x5C, 0x2A), (0x5D, 0x29), (0x5E, 0x3B), (0x5F, 0x5E), (0x60, 0x2D), (0x61, 0x2F),
      (0x6A, 0x7C), (0x6B, 0x2C), (0x6C, 0x25), (0x6D, 0x5F), (0x6E, 0x3E), (0x6F, 0x3F),
      (0x7A, 0x3A), (0x7B, 0x23), (0x7C, 0x40), (0x7D, 0x27), (0x7E, 0x3D), (0x7F, 0x22),
      (0x81, 0x61), (0x82, 0x62), (0x83, 0x63), (0x84, 0x64), (0x85, 0x65), (0x86, 0x66),
      (0x87, 0x67), (0x88, 0x68), (0x89, 0x69), (0x91, 0x6A), (0x92, 0x6B), (0x93, 0x6C),
      (0x94, 0x6D), (0x95, 0x6E), (0x96, 0x6F), (0x97, 0x70), (0x98, 0x71), (0x99, 0x72),
      (0xA2, 0x73), (0xA3, 0x74), (0xA4, 0x75), (0xA5, 0x76), (0xA6, 0x77), (0xA7, 0x78),
      (0xA8, 0x79), (0xA9, 0x7A), (0xC1, 0x41), (0xC2, 0x42), (0xC3, 0x43), (0xC4, 0x44),
      (0xC5, 0x45), (0xC6, 0x46), (0xC7, 0x47), (0xC8, 0x48), (0xC9, 0x49), (0xD1, 0x4A),
      (0xD2, 0x4B), (0xD3, 0x4C), (0xD4, 0x4D), (0xD5, 0x4E), (0xD6, 0x4F), (0xD7, 0x50),
      (0xD8, 0x51), (0xD9, 0x52), (0xE2, 0x53), (0xE3, 0x54), (0xE4, 0x55), (0xE5, 0x56),
      (0xE6, 0x57), (0xE7, 0x58), (0xE8, 0x59), (0xE9, 0x5A), (0xF0, 0x30), (0xF1, 0x31),
      (0xF2, 0x32), (0xF3, 0x33), (0xF4, 0x34), (0xF5, 0x35), (0xF6, 0x36), (0xF7, 0x37),
      (0xF8, 0x38), (0xF9, 0x39), (0x79, 0x60), (0x7A, 0x3A), (0xBB, 0x5C), (0xBC, 0x7B),
      (0xBD, 0x7D), (0xBE, 0x7E)
     ]"

definition convert_ebcdic_byte :: "byte \<Rightarrow> byte" where
  "convert_ebcdic_byte byte_val =
     (case map_of EBCDIC_TO_ASCII_JAK byte_val of Some v \<Rightarrow> v | None \<Rightarrow> byte_val)"

definition process_sosi_codes :: "'a ConversionConfig_scheme \<Rightarrow> byte list \<Rightarrow> byte list" where
  "process_sosi_codes config data =
     (if \<not> convert_sosi_to_space config then data
      else map (\<lambda>b. if uint b = sosi_so config \<or> uint b = sosi_si config then 0x20 else b) data)"

text \<open>\<^verbatim>\<open>str(n)\<close> for a nibble \<^verbatim>\<open>n <= 9\<close>, and \<^verbatim>\<open>result.encode('ascii')\<close>.\<close>

definition str_digit :: "byte \<Rightarrow> string" where
  "str_digit n = [char_of (48 + unat n)]"

definition encode_ascii :: "string \<Rightarrow> byte list" where
  "encode_ascii s = map (\<lambda>c. of_nat (of_char c)) s"

text \<open>
  The loop of \<^verbatim>\<open>_convert_packed_decimal\<close> over \<^verbatim>\<open>enumerate(packed_data)\<close>:
  \<^verbatim>\<open>n\<close> is \<^verbatim>\<open>len(packed_data)\<close>, \<^verbatim>\<open>i\<close> the index of the head of the remaining bytes.
\<close>

fun packed_loop :: "nat \<Rightarrow> nat \<Rightarrow> byte list \<Rightarrow> string \<Rightarrow> string" where
  "packed_loop n i [] result = result"
| "packed_loop n i (byte_val # rest) result =
     (let high_nibble = drop_bit 4 byte_val AND 0x0F;
          low_nibble = byte_val AND 0x0F
      in if int i = int n - 1
         then (let r1 = (if high_nibble \<le> 9 then result @ str_digit high_nibble else result);
                   r2 = (if low_nibble = 0xD then ''-'' @ r1 else r1)
               in packed_loop n (i + 1) rest r2)
         else (let r1 = (if high_nibble \<le> 9 then result @ str_digit high_nibble else result);
                   r2 = (if low_nibble \<le> 9 then r1 @ str_digit low_nibble else r1)
               in packed_loop n (i + 1) rest r2))"

text \<open>
  Nothing in the body of the \<^verbatim>\<open>try\<close> raises (the string holds digits and a minus sign
  only), so the handler that returns the input is never entered.
\<close>

definition convert_packed_decimal :: "byte list \<Rightarrow> byte list" where
  "convert_packed_decimal packed_data =
     encode_ascii (packed_loop (length packed_data) 0 packed_data [])"

definition convert_field_data ::
  "'a ConversionConfig_scheme \<Rightarrow> 'b LayoutField_scheme \<Rightarrow> byte list \<Rightarrow> byte list \<times> string" where
  "convert_field_data config field field_data =
     (if type_f field \<in> set [''COMP'', ''COMP-1'', ''COMP-2'', ''COMP-3'', ''COMP-4'', ''COMP-5'']
      then (if type_f field = ''COMP-3''
            then (convert_packed_decimal field_data, ''PACKED'')
            else (field_data, ''BINARY''))
      else (process_sosi_codes config (map convert_ebcdic_byte field_data), ''DISPLAY''))"

section \<open>Copybook layout parser\<close>

text \<open>The dictionary \<^verbatim>\<open>USAGE_TYPES\<close>.\<close>

definition USAGE_TYPES :: "(string \<times> string) list" where
  "USAGE_TYPES =
     [(''DISPLAY'', ''PIC''),
      (''COMPUTATIONAL'', ''COMP''),
      (''COMPUTATIONAL-1'', ''COMP-1''),
      (''COMPUTATIONAL-2'', ''COMP-2''),
      (''COMPUTATIONAL-3'', ''COMP-3''),
      (''COMPUTATIONAL-4'', ''COMP-4''),
      (''COMPUTATIONAL-5'', ''COMP-5''),
      (''PACKED-DECIMAL'', ''COMP-3''),
      (''BINARY'', ''COMP''),
      (''INDEX'', ''INDEX''),
      (''POINTER'', ''POINTER'')]"

text \<open>Truth value of an optional string: \<^verbatim>\<open>None\<close> and the empty string are false.\<close>

definition truthy :: "string option \<Rightarrow> bool" where
  "truthy s = (case s of None \<Rightarrow> False | Some t \<Rightarrow> t \<noteq> [])"

text \<open>
  The eight groups of the field pattern, in its order: level, name, picture, usage, occurs,
  redefines, value, description. The pattern itself (\<^verbatim>\<open>re.match\<close> with \<^verbatim>\<open>re.IGNORECASE\<close>)
  is a parameter \<open>field_match\<close> of the parser: a line is mapped to its groups, or to
  \<^verbatim>\<open>None\<close> when it does not match.
\<close>

type_synonym groups =
  "string \<times> string \<times> string option \<times> string option \<times> string option
     \<times> string option \<times> string option \<times> string"

text \<open>
  The body of the loop over the lines, on the pair (fields, current_position). The three
  calls of \<^verbatim>\<open>int\<close> (on the level, on the occurs count, and in the picture clause) are
  in no handler: their \<^verbatim>\<open>ValueError\<close> leaves \<^verbatim>\<open>parse_layout_file\<close>.
\<close>

definition parse_line ::
  "(string \<Rightarrow> groups option) \<Rightarrow> string \<Rightarrow> LayoutField list \<times> int
     \<Rightarrow> error + LayoutField list \<times> int" where
  "parse_line field_match line0 acc =
     (let line = rstrip line0
      in if strip line = [] \<or> take 1 (strip line) = ''*'' \<or> take 1 (strip line) = ''#''
         then Inr acc
         else (case field_match line of
                 None \<Rightarrow> Inr acc
               | Some (level_g, name_g, picture_g, usage_g, occurs_g, redefines_g, value_g,
                       description_g) \<Rightarrow>
                   (case int_of_digits level_g of
                      Inl e \<Rightarrow> Inl e
                    | Inr level_num \<Rightarrow>
                        (if level_num \<le> 2 \<and> \<not> truthy picture_g then Inr acc
                         else (let picture1 = (case picture_g of
                                                 None \<Rightarrow> ''X(1)''
                                               | Some p \<Rightarrow> (if p = [] then ''X(1)'' else p))
                               in (case (case occurs_g of
                                           None \<Rightarrow> Inr 1
                                         | Some oc \<Rightarrow> (if oc = [] then Inr 1
                                                       else int_of_digits oc)) of
                                     Inl e \<Rightarrow> Inl e
                                   | Inr occurs_count \<Rightarrow>
                                       (let field_type =
                                              (case usage_g of
                                                 None \<Rightarrow> ''PIC''
                                               | Some u \<Rightarrow>
                                                   (if u = [] then ''PIC''
                                                    else (case map_of USAGE_TYPES (upper u) of
                                                            Some t \<Rightarrow> t
                                                          | None \<Rightarrow> ''PIC'')));
                                            current_position = snd acc;
                                            field0 =
                                              \<lparr>name = name_g, level = level_g,
                                               type_f = field_type, picture = picture1,
                                               length_f = 0, position = current_position,
                                               occurs = occurs_count, redefines = redefines_g,
                                               value_f = value_g, sign = None, usage = usage_g,
                                               description = strip description_g\<rparr>
                                        in (case calculate_field_length field0 of
                                              Inl e \<Rightarrow> Inl e
                                            | Inr len \<Rightarrow>
                                                (let field = field0\<lparr>length_f := len\<rparr>
                                                 in Inr (fst acc @ [field],
                                                         if \<not> truthy redefines_g
                                                         then current_position + length_f field
                                                         else current_position))))))))))"

text \<open>The loop over the lines: it ends at the first exception.\<close>

fun parse_lines ::
  "(string \<Rightarrow> groups option) \<Rightarrow> string list \<Rightarrow> LayoutField list \<times> int
     \<Rightarrow> error + LayoutField list \<times> int" where
  "parse_lines field_match [] acc = Inr acc"
| "parse_lines field_match (line # lines) acc =
     (case parse_line field_match line acc of
        Inl e \<Rightarrow> Inl e
      | Inr acc1 \<Rightarrow> parse_lines field_match lines acc1)"

text \<open>\<^verbatim>\<open>content.split('\n')\<close>.\<close>

fun split_lines :: "string \<Rightarrow> string list" where
  "split_lines [] = [[]]"
| "split_lines (c # cs) =
     (if c = CHR 0x0A then [] # split_lines cs
      else (case split_lines cs of
              l # ls \<Rightarrow> (c # l) # ls
            | [] \<Rightarrow> [[c]]))"

text \<open>
  A text file opened with the default \<^verbatim>\<open>newline=None\<close>: carriage return with line feed,
  and a lone carriage return, are read as a line feed.
\<close>

fun universal_newlines :: "string \<Rightarrow> string" where
  "universal_newlines [] = []"
| "universal_newlines [c] = (if c = CHR 0x0D then [CHR 0x0A] else [c])"
| "universal_newlines (c # d # cs) =
     (if c = CHR 0x0D \<and> d = CHR 0x0A then CHR 0x0A # universal_newlines cs
      else if c = CHR 0x0D then CHR 0x0A # universal_newlines (d # cs)
      else c # universal_newlines (d # cs))"

text \<open>
  The codec \<^verbatim>\<open>latin1\<close> maps every byte to the character of the same code, so it decodes
  every byte sequence. The codecs \<^verbatim>\<open>shift_jis\<close>, \<^verbatim>\<open>utf-8\<close> and \<^verbatim>\<open>cp932\<close> are
  parameters: partial functions, \<^verbatim>\<open>None\<close> where the codec raises \<^verbatim>\<open>UnicodeDecodeError\<close>.
\<close>

definition latin1 :: "byte list \<Rightarrow> string option" where
  "latin1 raw = Some (map (\<lambda>b. char_of (unat b)) raw)"

record codecs =
  shift_jis :: "byte list \<Rightarrow> string option"
  utf_8 :: "byte list \<Rightarrow> string option"
  cp932 :: "byte list \<Rightarrow> string option"

text \<open>The loop \<^verbatim>\<open>for encoding in encodings\<close>: the first codec that decodes wins.\<close>

fun try_encodings :: "(byte list \<Rightarrow> string option) list \<Rightarrow> byte list \<Rightarrow> string option" where
  "try_encodings [] raw = None"
| "try_encodings (decode # rest) raw =
     (case decode raw of
        Some content \<Rightarrow> Some (universal_newlines content)
      | None \<Rightarrow> try_encodings rest raw)"

definition encodings :: "codecs \<Rightarrow> (byte list \<Rightarrow> string option) list" where
  "encodings cd = [shift_jis cd, utf_8 cd, cp932 cd, latin1]"

text \<open>
  \<^verbatim>\<open>parse_layout_file\<close>. The layout file is \<^verbatim>\<open>None\<close> when it does not exist, and its
  bytes otherwise: a file that exists is taken to open and to be read to its end.
\<close>

definition parse_layout_file ::
  "'a ConversionConfig_scheme \<Rightarrow> codecs \<Rightarrow> (string \<Rightarrow> groups option) \<Rightarrow> byte list option
     \<Rightarrow> error + LayoutField list" where
  "parse_layout_file config cd field_match layout =
     (if \<not> truthy (layout_file config) then Inr []
      else (case layout of
              None \<Rightarrow> Inl LayoutFileNotFound
            | Some raw \<Rightarrow>
                (case try_encodings (encodings cd) raw of
                   None \<Rightarrow> Inl LayoutUndecodable
                 | Some content \<Rightarrow>
                     (case parse_lines field_match (split_lines content) ([], 1) of
                        Inl e \<Rightarrow> Inl e
                      | Inr (parsed, current_position) \<Rightarrow>
                          (if parsed = [] then Inl NoFieldDefinitions else Inr parsed)))))"

section \<open>Record conversion pipeline\<close>

text \<open>
  Python slices of a sequence: a negative bound counts from the end, and every bound is
  clamped to the sequence.
\<close>

definition slice_index :: "nat \<Rightarrow> int \<Rightarrow> nat" where
  "slice_index n i = (if i < 0 then nat (max 0 (int n + i)) else min (nat i) n)"

definition slice_from :: "'a list \<Rightarrow> int \<Rightarrow> 'a list" where
  "slice_from xs a = drop (slice_index (length xs) a) xs"

definition slice :: "'a list \<Rightarrow> int \<Rightarrow> int \<Rightarrow> 'a list" where
  "slice xs a b =
     (let lo = slice_index (length xs) a; hi = slice_index (length xs) b
      in take (hi - lo) (drop lo xs))"

text \<open>The dictionary \<^verbatim>\<open>stats\<close>.\<close>

record stats =
  records_converted :: int
  bytes_processed :: int
  conversion_errors :: int
  field_conversions :: int

text \<open>
  The bytes of one field, cut out of the record and padded with zero bytes. The
  expression \<^verbatim>\<open>b'\x00' * n\<close> raises when \<^verbatim>\<open>n\<close> is beyond \<open>max_bytes\<close>, the largest
  number of bytes that the machine builds: at most \<^verbatim>\<open>sys.maxsize\<close>, which is
  \<open>2 ^ 63 - 1\<close> (beyond it the exception is \<^verbatim>\<open>OverflowError\<close>), and less where the
  memory ends (\<^verbatim>\<open>MemoryError\<close>). The result is \<^verbatim>\<open>None\<close> then.
\<close>

definition sys_maxsize :: int where
  "sys_maxsize = 9223372036854775807"

definition field_data_of :: "int \<Rightarrow> 'a LayoutField_scheme \<Rightarrow> byte list \<Rightarrow> byte list option" where
  "field_data_of max_bytes field record_data =
     (let field_start = position field - 1;
          field_end = field_start + length_f field
      in if field_end > int (length record_data)
         then (let n = length_f field - (int (length record_data) - field_start)
               in if n > max_bytes then None
                  else Some (slice_from record_data field_start @ replicate (nat n) 0x00))
         else Some (slice record_data field_start field_end))"

text \<open>
  The loop \<^verbatim>\<open>for field in fields\<close>, on the pair (converted_record, stats). The flag
  tells that the zero padding of a field raised; the loop ends there.
\<close>

fun convert_fields ::
  "int \<Rightarrow> 'a ConversionConfig_scheme \<Rightarrow> LayoutField list \<Rightarrow> byte list \<Rightarrow> byte list \<times> stats
     \<Rightarrow> bool \<times> byte list \<times> stats" where
  "convert_fields max_bytes config [] record_data acc = (False, acc)"
| "convert_fields max_bytes config (field # rest) record_data (converted_record, st) =
     (case field_data_of max_bytes field record_data of
        None \<Rightarrow> (True, converted_record, st)
      | Some field_data \<Rightarrow>
          (let converted_data = fst (convert_field_data config field field_data)
           in convert_fields max_bytes config rest record_data
                (converted_record @ converted_data,
                 st\<lparr>field_conversions := field_conversions st + 1\<rparr>)))"

text \<open>Padding with spaces up to the record length, then truncation to it.\<close>

definition pad_record :: "int \<Rightarrow> byte list \<Rightarrow> byte list" where
  "pad_record rl converted_record =
     (let padded = converted_record @ replicate (nat (rl - int (length converted_record))) 0x20
      in if int (length padded) > rl then slice padded 0 rl else padded)"

text \<open>
  What the file operations of one iteration do: \<^verbatim>\<open>infile.read\<close> raises, or returns
  bytes, and then \<^verbatim>\<open>outfile.write\<close> raises (the flag) or writes. These two calls and the
  zero padding of a field are the statements of the \<^verbatim>\<open>try\<close> body that raise.
\<close>

datatype record_io = ReadRaises | ReadReturns "byte list" bool

datatype outcome = Completed | Broke | Raised

text \<open>The body of the \<^verbatim>\<open>try\<close>, on the pair (stats, bytes written to the output file).\<close>

definition try_body ::
  "int \<Rightarrow> 'a ConversionConfig_scheme \<Rightarrow> LayoutField list \<Rightarrow> record_io \<Rightarrow> stats \<times> byte list
     \<Rightarrow> outcome \<times> stats \<times> byte list" where
  "try_body max_bytes config layout_fields rio acc =
     (case rio of
        ReadRaises \<Rightarrow> (Raised, acc)
      | ReadReturns record_data write_raises \<Rightarrow>
          (if int (length record_data) < record_length config then (Broke, acc)
           else (let st1 = (fst acc)\<lparr>bytes_processed :=
                                        bytes_processed (fst acc) + int (length record_data)\<rparr>
                 in if layout_fields \<noteq> []
                    then (let (padding_raises, converted_record, st2) =
                                convert_fields max_bytes config layout_fields record_data
                                  ([], st1)
                          in if padding_raises then (Raised, st2, snd acc)
                             else (let out_record =
                                         pad_record (record_length config) converted_record
                                   in if write_raises then (Raised, st2, snd acc)
                                      else (Completed,
                                            st2\<lparr>records_converted :=
                                                  records_converted st2 + 1\<rparr>,
                                            snd acc @ out_record)))
                    else (let converted_record =
                                process_sosi_codes config (map convert_ebcdic_byte record_data)
                          in if write_raises then (Raised, st1, snd acc)
                             else (Completed,
                                   st1\<lparr>records_converted := records_converted st1 + 1\<rparr>,
                                   snd acc @ converted_record)))))"

text \<open>
  The loop \<^verbatim>\<open>for record_index in range(record_count)\<close> with its \<^verbatim>\<open>try\<close> and
  \<^verbatim>\<open>except Exception\<close>; \<open>io\<close> gives the file operations of every iteration.
\<close>

fun record_loop ::
  "int \<Rightarrow> 'a ConversionConfig_scheme \<Rightarrow> LayoutField list \<Rightarrow> (nat \<Rightarrow> record_io) \<Rightarrow> nat list
     \<Rightarrow> stats \<times> byte list \<Rightarrow> stats \<times> byte list" where
  "record_loop max_bytes config layout_fields io [] acc = acc"
| "record_loop max_bytes config layout_fields io (record_index # rest) acc =
     (case try_body max_bytes config layout_fields (io record_index) acc of
        (Completed, acc1) \<Rightarrow> record_loop max_bytes config layout_fields io rest acc1
      | (Broke, acc1) \<Rightarrow> acc1
      | (Raised, st1, out1) \<Rightarrow>
          record_loop max_bytes config layout_fields io rest
            (st1\<lparr>conversion_errors := conversion_errors st1 + 1\<rparr>, out1))"

definition initial_stats :: stats where
  "initial_stats =
     \<lparr>records_converted = 0, bytes_processed = 0, conversion_errors = 0,
      field_conversions = 0\<rparr>"


text \<open>\<^verbatim>\<open>os.path.dirname\<close> on a POSIX path.\<close>

definition dirname :: "string \<Rightarrow> string" where
  "dirname p =
     (let head = rev (dropWhile (\<lambda>c. c \<noteq> CHR ''/'') (rev p))
      in if head \<noteq> [] \<and> list_ex (\<lambda>c. c \<noteq> CHR ''/'') head
         then rev (dropWhile (\<lambda>c. c = CHR ''/'') (rev head))
         else head)"

text \<open>
  What the run meets outside the program: the bytes of the layout file (\<^verbatim>\<open>None\<close> when
  it does not exist), the size of the input file (\<^verbatim>\<open>None\<close> when it does not exist),
  whether \<^verbatim>\<open>os.makedirs\<close> raises on a directory name that is not empty, whether one of
  the two calls of \<^verbatim>\<open>open\<close> raises, whether closing the files at the end of the
  \<^verbatim>\<open>with\<close> block raises (the output is flushed there), the largest number of bytes
  that the machine builds, and the file operations of every iteration of the loop.
\<close>

record environment =
  env_layout :: "byte list option"
  env_input_size :: "nat option"
  env_makedirs_raises :: bool
  env_open_raises :: bool
  env_close_raises :: bool
  env_max_bytes :: int
  env_io :: "nat \<Rightarrow> record_io"

text \<open>
  \<^verbatim>\<open>convert_dataset\<close>: the layout, the check of the input file, the record count, the
  creation of the output directory (\<^verbatim>\<open>os.makedirs\<close> raises on the empty directory name
  of a bare file name), the opening of the two files, the loop, and the closing of the
  files. The result is the statistics with the bytes of the output file. The catalog is
  read and updated around this; every exception there is caught.
\<close>

definition convert_dataset ::
  "'a ConversionConfig_scheme \<Rightarrow> codecs \<Rightarrow> (string \<Rightarrow> groups option) \<Rightarrow> environment
     \<Rightarrow> error + stats \<times> byte list" where
  "convert_dataset config cd field_match env =
     (case (if truthy (layout_file config)
            then parse_layout_file config cd field_match (env_layout env)
            else Inr []) of
        Inl e \<Rightarrow> Inl e
      | Inr layout_fields \<Rightarrow>
          (case env_input_size env of
             None \<Rightarrow> Inl InputFileNotFound
           | Some file_size \<Rightarrow>
               (if record_length config = 0 then Inl ZeroDivisionError
                else (let record_count = int file_size div record_length config
                      in if dirname (output_file config) = [] \<or> env_makedirs_raises env
                         then Inl OutputDirectoryError
                         else if env_open_raises env then Inl OpenError
                         else (let result =
                                     record_loop (env_max_bytes env) config layout_fields
                                       (env_io env) [0..<nat record_count]
                                       (initial_stats, [])
                               in if env_close_raises env then Inl CloseError
                                  else Inr result)))))"

section \<open>Notions used in the properties\<close>

subsection \<open>Packed decimal, as the specification words it\<close>

definition high_nibble_of :: "byte \<Rightarrow> byte" where
  "high_nibble_of b = drop_bit 4 b AND 0x0F"

definition low_nibble_of :: "byte \<Rightarrow> byte" where
  "low_nibble_of b = b AND 0x0F"

text \<open>A nibble up to 9 is a decimal digit; a larger one is dropped.\<close>

definition nibble_digit :: "byte \<Rightarrow> string" where
  "nibble_digit n = (if n \<le> 9 then str_digit n else [])"

text \<open>
  Both nibbles of every byte but the last, the high nibble of the last byte, and a minus
  sign in front when the low nibble of the last byte is \<^verbatim>\<open>0xD\<close>.
\<close>

definition packed_decimal_spec :: "byte list \<Rightarrow> string" where
  "packed_decimal_spec bs =
     (if low_nibble_of (last bs) = 0xD then ''-'' else [])
     @ concat (map (\<lambda>b. nibble_digit (high_nibble_of b) @ nibble_digit (low_nibble_of b))
                 (butlast bs))
     @ nibble_digit (high_nibble_of (last bs))"

subsection \<open>Symbols of a picture\<close>

definition is_class_symbol :: "char \<Rightarrow> bool" where
  "is_class_symbol c = (c \<in> set ''9XAN'')"

text \<open>The number of symbols \<^verbatim>\<open>9\<close>, \<^verbatim>\<open>X\<close>, \<^verbatim>\<open>A\<close>, \<^verbatim>\<open>N\<close> in a picture.\<close>

definition symbol_count :: "string \<Rightarrow> int" where
  "symbol_count w = int (length (filter is_class_symbol w))"

text \<open>
  The longest run of one repeated class symbol, 1 when there is none: the digit count as
  the specification words it.
\<close>

definition longest_run :: "string \<Rightarrow> int" where
  "longest_run w =
     foldr (\<lambda>r m. max (int (length r)) m)
       (concat (map (\<lambda>p. findall_runs (fst p) w) pattern_table)) 1"

subsection \<open>The running offset cursor\<close>

text \<open>The cursor after a list of fields: only a field without REDEFINES advances it.\<close>

definition advance :: "int \<Rightarrow> LayoutField \<Rightarrow> int" where
  "advance cur f = (if truthy (redefines f) then cur else cur + length_f f)"

definition end_cursor :: "int \<Rightarrow> LayoutField list \<Rightarrow> int" where
  "end_cursor cur fs = foldl advance cur fs"

text \<open>Every field sits at the cursor left by the fields before it.\<close>

fun positions_ok :: "int \<Rightarrow> LayoutField list \<Rightarrow> bool" where
  "positions_ok cur [] = True"
| "positions_ok cur (f # fs) = (position f = cur \<and> positions_ok (advance cur f) fs)"

subsection \<open>Records of a run\<close>

text \<open>The zero padding of one of the fields raises on a record.\<close>

definition fields_raise :: "int \<Rightarrow> LayoutField list \<Rightarrow> byte list \<Rightarrow> bool" where
  "fields_raise max_bytes layout_fields record_data =
     list_ex (\<lambda>f. field_data_of max_bytes f record_data = None) layout_fields"

text \<open>
  An iteration raises when its read raises, when the zero padding of one of its fields
  raises, or when its write raises.
\<close>

definition raises :: "int \<Rightarrow> LayoutField list \<Rightarrow> record_io \<Rightarrow> bool" where
  "raises max_bytes layout_fields rio =
     (case rio of
        ReadRaises \<Rightarrow> True
      | ReadReturns d w \<Rightarrow> (if fields_raise max_bytes layout_fields d then True else w))"

definition short_read :: "'a ConversionConfig_scheme \<Rightarrow> record_io \<Rightarrow> bool" where
  "short_read config rio =
     (case rio of
        ReadRaises \<Rightarrow> False
      | ReadReturns d w \<Rightarrow> int (length d) < record_length config)"

definition bytes_read :: "record_io \<Rightarrow> int" where
  "bytes_read rio = (case rio of ReadRaises \<Rightarrow> 0 | ReadReturns d w \<Rightarrow> int (length d))"

text \<open>The bytes written for one record that is read in full and converted.\<close>

definition record_output ::
  "int \<Rightarrow> 'a ConversionConfig_scheme \<Rightarrow> LayoutField list \<Rightarrow> byte list \<Rightarrow> byte list" where
  "record_output max_bytes config layout_fields record_data =
     (if layout_fields \<noteq> []
      then pad_record (record_length config)
             (fst (snd (convert_fields max_bytes config layout_fields record_data
                          ([], initial_stats))))
      else process_sosi_codes config (map convert_ebcdic_byte record_data))"

definition written_record ::
  "int \<Rightarrow> 'a ConversionConfig_scheme \<Rightarrow> LayoutField list \<Rightarrow> record_io \<Rightarrow> byte list" where
  "written_record max_bytes config layout_fields rio =
     (case rio of
        ReadRaises \<Rightarrow> []
      | ReadReturns d w \<Rightarrow> record_output max_bytes config layout_fields d)"

text \<open>
  The run is aborted outside its loop: the layout fails, the input file is missing, the
  record length is 0, the output directory is not created, a file is not opened, or
  the files are not closed.
\<close>

definition aborts_outside_loop ::
  "'a ConversionConfig_scheme \<Rightarrow> codecs \<Rightarrow> (string \<Rightarrow> groups option) \<Rightarrow> environment \<Rightarrow> bool" where
  "aborts_outside_loop config cd field_match env =
     (isl (parse_layout_file config cd field_match (env_layout env))
      \<or> env_input_size env = None
      \<or> record_length config = 0
      \<or> dirname (output_file config) = []
      \<or> env_makedirs_raises env
      \<or> env_open_raises env
      \<or> env_close_raises env)"

subsection \<open>Sample data\<close>

text \<open>A configuration with the defaults of the dataclass.\<close>

definition sample_config :: ConversionConfig where
  "sample_config =
     \<lparr>input_file = ''/data/assets/ebcdic/DEMO.SAM.ebc'', output_file = ''/tmp/a.out'',
      layout_file = Some ''SAM001.LAYOUT'', record_length = 80, encoding = ''JAK'',
      sosi_so = 0x28, sosi_si = 0x29, convert_sosi_to_space = True,
      catalog_path = ''/home/aspuser/app/config/catalog.json'', dataset_name = None,
      volume = ''DISK01'', library = ''TESTLIB'', update_catalog = True\<rparr>"

definition sample_field :: "string \<Rightarrow> int \<Rightarrow> int \<Rightarrow> LayoutField" where
  "sample_field t pos len =
     \<lparr>name = ''F'', level = ''03'', type_f = t, picture = ''X(1)'', length_f = len,
      position = pos, occurs = 1, redefines = None, value_f = None, sign = None,
      usage = None, description = []\<rparr>"

text \<open>The groups that the field pattern gives on the lines of the sample layouts.\<close>

definition sample_groups :: "(string \<times> groups) list" where
  "sample_groups =
     [(''03 A PIC X(5)'', (''03'', ''A'', Some ''X(5)'', None, None, None, None, [])),
      (''03 B PIC X(3) REDEFINES A'', (''03'', ''B'', Some ''X(3)'', None, None, Some ''A'', None, [])),
      (''03 C PIC X(2)'', (''03'', ''C'', Some ''X(2)'', None, None, None, None, [])),
      (''03 P PIC X(6)'', (''03'', ''P'', Some ''X(6)'', None, None, None, None, [])),
      (''03 Q PIC X(2)'', (''03'', ''Q'', Some ''X(2)'', None, None, None, None, []))]"

definition sample_match :: "string \<Rightarrow> groups option" where
  "sample_match line = map_of sample_groups line"

text \<open>On bytes below \<^verbatim>\<open>0x80\<close> the three codecs decode as ASCII does.\<close>

definition ascii_decode :: "byte list \<Rightarrow> string option" where
  "ascii_decode raw =
     (if list_all (\<lambda>b. b < 0x80) raw then Some (map (\<lambda>b. char_of (unat b)) raw) else None)"

definition sample_codecs :: codecs where
  "sample_codecs = \<lparr>shift_jis = ascii_decode, utf_8 = ascii_decode, cp932 = ascii_decode\<rparr>"

definition redefines_layout :: "byte list" where
  "redefines_layout =
     encode_ascii (''03 A PIC X(5)'' @ [CHR 0x0A] @ ''03 B PIC X(3) REDEFINES A'' @ [CHR 0x0A]
                   @ ''03 C PIC X(2)'' @ [CHR 0x0A])"

definition overrun_layout :: "byte list" where
  "overrun_layout =
     encode_ascii (''03 P PIC X(6)'' @ [CHR 0x0A] @ ''03 Q PIC X(2)'' @ [CHR 0x0A])"

text \<open>A layout of two fields, a record length of 8, and a file of one record and 3 bytes.\<close>

definition id_name_groups :: "(string \<times> groups) list" where
  "id_name_groups =
     [(''03 ID PIC 9(3)'', (''03'', ''ID'', Some ''9(3)'', None, None, None, None, [])),
      (''03 NAME PIC X(5)'', (''03'', ''NAME'', Some ''X(5)'', None, None, None, None, []))]"

definition id_name_match :: "string \<Rightarrow> groups option" where
  "id_name_match line = map_of id_name_groups line"

definition id_name_layout :: "byte list" where
  "id_name_layout =
     encode_ascii (''03 ID PIC 9(3)'' @ [CHR 0x0A] @ ''03 NAME PIC X(5)'' @ [CHR 0x0A])"

definition id_name_config :: ConversionConfig where
  "id_name_config = sample_config\<lparr>record_length := 8\<rparr>"

definition id_name_fields :: "LayoutField list" where
  "id_name_fields =
     [\<lparr>name = ''ID'', level = ''03'', type_f = ''PIC'', picture = ''9(3)'', length_f = 3,
       position = 1, occurs = 1, redefines = None, value_f = None, sign = None,
       usage = None, description = []\<rparr>,
      \<lparr>name = ''NAME'', level = ''03'', type_f = ''PIC'', picture = ''X(5)'', length_f = 5,
       position = 4, occurs = 1, redefines = None, value_f = None, sign = None,
       usage = None, description = []\<rparr>]"


text \<open>A run without layout on records of 2 bytes, where the read of the second record raises.\<close>

definition raw_config :: ConversionConfig where
  "raw_config = sample_config\<lparr>layout_file := None, record_length := 2\<rparr>"

definition faulty_io :: "nat \<Rightarrow> record_io" where
  "faulty_io i =
     (if i = 0 then ReadReturns [0xF1, 0xF2] False
      else if i = 1 then ReadRaises
      else ReadReturns [0xC1, 0x40] False)"

text \<open>
  A machine that creates the directory, opens and closes the files and builds every
  byte string up to \<^verbatim>\<open>sys.maxsize\<close>.
\<close>

definition sample_env :: "byte list option \<Rightarrow> nat \<Rightarrow> (nat \<Rightarrow> record_io) \<Rightarrow> environment" where
  "sample_env layout file_size io =
     \<lparr>env_layout = layout, env_input_size = Some file_size, env_makedirs_raises = False,
      env_open_raises = False, env_close_raises = False, env_max_bytes = sys_maxsize,
      env_io = io\<rparr>"

text \<open>A layout of one line whose level number has 4301 digits, and its groups.\<close>

definition long_level :: string where
  "long_level = replicate 4301 (CHR ''1'')"

definition long_level_line :: string where
  "long_level_line = long_level @ '' A PIC X(1)''"

definition long_level_match :: "string \<Rightarrow> groups option" where
  "long_level_match line =
     (if line = long_level_line
      then Some (long_level, ''A'', Some ''X(1)'', None, None, None, None, [])
      else None)"

definition long_level_layout :: "byte list" where
  "long_level_layout = encode_ascii (long_level_line @ [CHR 0x0A])"

section \<open>Packed-decimal decoding\<close>

text \<open>The loop, from any index on: the digits are appended, the sign is put in front.\<close>

lemma packed_loop_spec:
  "bs \<noteq> [] \<Longrightarrow> i + length bs = n \<Longrightarrow>
   packed_loop n i bs r =
     (if low_nibble_of (last bs) = 0xD then ''-'' else [])
     @ r
     @ concat (map (\<lambda>b. nibble_digit (high_nibble_of b) @ nibble_digit (low_nibble_of b))
                 (butlast bs))
     @ nibble_digit (high_nibble_of (last bs))"
proof (induction bs arbitrary: i r)
  case Nil
  then show ?case by simp
next
  case (Cons b bs)
  show ?case
  proof (cases bs)
    case Nil
    with Cons.prems have "int i = int n - 1" by simp
    with Nil show ?thesis
      by (simp add: Let_def high_nibble_of_def low_nibble_of_def nibble_digit_def)
  next
    case (Cons c cs)
    with Cons.prems have ne: "int i \<noteq> int n - 1" by simp
    from Cons Cons.prems have len: "(i + 1) + length bs = n" by simp
    from Cons have nonempty: "bs \<noteq> []" by simp
    have step: "packed_loop n i (b # bs) r =
       packed_loop n (i + 1) bs
         (r @ nibble_digit (high_nibble_of b) @ nibble_digit (low_nibble_of b))"
      using ne by (simp add: Let_def high_nibble_of_def low_nibble_of_def nibble_digit_def)
    show ?thesis
      unfolding step Cons.IH [OF nonempty len]
      using nonempty by simp
  qed
qed

text \<open>
  C8: for every non-empty byte sequence, packed-decimal decoding appends each nibble up to
  9 of every byte but the last as a decimal digit (larger nibbles are dropped), appends
  only the high nibble of the last byte (if up to 9), and puts a minus sign in front
  exactly when the low nibble of the last byte is \<^verbatim>\<open>0xD\<close>; the bytes
  \<^verbatim>\<open>05 00 00 0C\<close> decode to the digit string \<^verbatim>\<open>0500000\<close> with no sign.
\<close>

theorem packed_decimal_decode:
  "(bs \<noteq> [] \<longrightarrow> convert_packed_decimal bs = encode_ascii (packed_decimal_spec bs))
   \<and> convert_packed_decimal [0x05, 0x00, 0x00, 0x0C] = encode_ascii ''0500000''"
proof
  show "bs \<noteq> [] \<longrightarrow> convert_packed_decimal bs = encode_ascii (packed_decimal_spec bs)"
    using packed_loop_spec [of bs 0 "length bs" "[]"]
    by (simp add: convert_packed_decimal_def packed_decimal_spec_def)
  show "convert_packed_decimal [0x05, 0x00, 0x00, 0x0C] = encode_ascii ''0500000''"
    by (simp add: convert_packed_decimal_def encode_ascii_def str_digit_def)
qed

text \<open>C8, at the bytes \<^verbatim>\<open>12 3D\<close>: the digits 1, 2, 3 and a minus sign.\<close>

theorem packed_decimal_decode_witness:
  "[0x12, 0x3D] \<noteq> ([] :: byte list)
   \<and> convert_packed_decimal [0x12, 0x3D] = encode_ascii ''-123''"
  using packed_decimal_decode [of "[0x12, 0x3D]"]
  by (simp add: packed_decimal_spec_def low_nibble_of_def high_nibble_of_def nibble_digit_def
      encode_ascii_def str_digit_def)

section \<open>Picture-clause calculator\<close>

text \<open>The runs of a symbol hold every occurrence of it.\<close>

lemma findall_runs_total:
  "sum_list (map (\<lambda>r. int (length r)) (findall_runs c s)) = int (length (filter (\<lambda>x. x = c) s))"
proof (induction c s rule: findall_runs.induct)
  case (1 c)
  then show ?case by simp
next
  case (2 c x xs)
  show ?case
  proof (cases "x = c")
    case True
    have split: "length (filter (\<lambda>x. x = c) xs) =
        length (takeWhile (\<lambda>y. y = c) xs) + length (filter (\<lambda>x. x = c) (dropWhile (\<lambda>y. y = c) xs))"
    proof -
      have "filter (\<lambda>x. x = c) xs =
          filter (\<lambda>x. x = c) (takeWhile (\<lambda>y. y = c) xs @ dropWhile (\<lambda>y. y = c) xs)"
        by simp
      also have "\<dots> = takeWhile (\<lambda>y. y = c) xs @ filter (\<lambda>x. x = c) (dropWhile (\<lambda>y. y = c) xs)"
        unfolding filter_append
        by (simp add: filter_id_conv) (metis set_takeWhileD)
      finally show ?thesis by (metis length_append)
    qed
    from True 2 show ?thesis by (simp add: split)
  next
    case False
    with 2 show ?thesis by simp
  qed
qed

lemma count_matches_fst:
  "fst (count_matches t ms acc) = fst acc + sum_list (map (\<lambda>r. int (length r)) ms)"
  by (induction t ms acc rule: count_matches.induct) simp_all

lemma count_patterns_fst:
  "fst (count_patterns ps w acc) =
     fst acc + sum_list (map (\<lambda>p. int (length (filter (\<lambda>x. x = fst p) w))) ps)"
  by (induction ps w acc rule: count_patterns.induct)
     (simp_all add: count_matches_fst findall_runs_total)

lemma class_filter_split:
  "int (length (filter is_class_symbol w)) =
     int (length (filter (\<lambda>x. x = CHR ''9'') w)) + int (length (filter (\<lambda>x. x = CHR ''X'') w))
     + int (length (filter (\<lambda>x. x = CHR ''A'') w)) + int (length (filter (\<lambda>x. x = CHR ''N'') w))"
  by (induction w) (auto simp: is_class_symbol_def)

lemma count_patterns_table:
  "fst (count_patterns pattern_table w (0, d)) = symbol_count w"
  by (subst count_patterns_fst)
     (simp add: pattern_table_def symbol_count_def class_filter_split)

lemma filter_dropWhile_space:
  "filter is_class_symbol (dropWhile isspace s) = filter is_class_symbol s"
  by (induction s) (auto simp: isspace_def is_class_symbol_def)

lemma filter_strip:
  "filter is_class_symbol (strip s) = filter is_class_symbol s"
proof -
  have "filter is_class_symbol (rstrip s) = filter is_class_symbol s"
    unfolding rstrip_def
    by (metis filter_dropWhile_space rev_filter rev_rev_ident)
  then show ?thesis by (simp add: strip_def lstrip_def filter_dropWhile_space)
qed

text \<open>Stripping blanks, the letter V and a leading S removes no class symbol.\<close>

lemma symbol_count_working:
  "symbol_count (working_picture_of pic) = symbol_count (upper pic)"
proof -
  let ?P = is_class_symbol
  have rm: "filter ?P (remove_char (CHR ''V'') (strip (upper pic))) = filter ?P (upper pic)"
  proof -
    have "filter ?P (remove_char (CHR ''V'') t) = filter ?P t" for t
      by (induction t) (auto simp: remove_char_def is_class_symbol_def)
    then show ?thesis by (simp add: filter_strip)
  qed
  have "filter ?P (working_picture_of pic) = filter ?P (remove_char (CHR ''V'') (strip (upper pic)))"
    by (auto simp: working_picture_of_def Let_def is_class_symbol_def split: list.splits)
  with rm show ?thesis by (simp add: symbol_count_def)
qed

text \<open>
  C3, as stated, fails: the picture \<^verbatim>\<open>9X9\<close> has no parenthesized repetition, its longest
  run of one class symbol has length 1, and its digit count is 3. So does the picture
  \<^verbatim>\<open>9Z9\<close>, where the two runs are apart: the longest run has length 1, the digit count
  is 2.
\<close>

theorem picture_longest_run_counterexample:
  "paren_search (working_picture_of ''9X9'') = None
   \<and> parse_picture_clause ''9X9'' = Inr (3, ''ALPHANUMERIC'')
   \<and> longest_run (working_picture_of ''9X9'') = 1
   \<and> paren_search (working_picture_of ''9Z9'') = None
   \<and> parse_picture_clause ''9Z9'' = Inr (2, ''NUMERIC'')
   \<and> longest_run (working_picture_of ''9Z9'') = 1"
  by code_simp

text \<open>
  C3, amended: for every PIC clause without parenthesized repetition, the digit count is
  the total number of symbols 9, X, A, N of the picture (in upper case; stripping V and a
  leading S removes none of them), and 1 when there is no such symbol.
\<close>

theorem picture_symbol_total:
  "paren_search (working_picture_of pic) = None \<Longrightarrow>
   parse_picture_clause pic
     = Inr (max (symbol_count (working_picture_of pic)) 1,
            snd (count_patterns pattern_table (working_picture_of pic) (0, ''DISPLAY'')))
   \<and> symbol_count (working_picture_of pic) = symbol_count (upper pic)"
proof -
  assume none: "paren_search (working_picture_of pic) = None"
  have "parse_picture_clause pic =
      Inr (max (fst (count_patterns pattern_table (working_picture_of pic) (0, ''DISPLAY''))) 1,
           snd (count_patterns pattern_table (working_picture_of pic) (0, ''DISPLAY'')))"
    using none by (simp add: parse_picture_clause_def Let_def split: prod.splits)
  then show ?thesis
    by (simp add: count_patterns_table symbol_count_working)
qed

text \<open>C3, amended, at the picture \<^verbatim>\<open>99X\<close>: three symbols, digit count 3.\<close>

theorem picture_symbol_total_witness:
  "paren_search (working_picture_of ''99X'') = None
   \<and> parse_picture_clause ''99X'' = Inr (3, ''ALPHANUMERIC'')"
proof -
  have none: "paren_search (working_picture_of ''99X'') = None" by code_simp
  have cnt: "symbol_count (working_picture_of ''99X'') = 3" by code_simp
  have dty: "snd (count_patterns pattern_table (working_picture_of ''99X'') (0, ''DISPLAY''))
      = ''ALPHANUMERIC''" by code_simp
  from picture_symbol_total [OF none] none cnt dty show ?thesis by simp
qed

text \<open>
  C1: for the PIC clause \<^verbatim>\<open>S9(7)V99\<close> with usage PACKED-DECIMAL the claim gives a digit
  count of 9 and a length of 5 bytes. The calculator stops at the parenthesized
  repetition: its digit count is 7 and the length is (7 + 1) div 2 = 4 bytes.
\<close>

theorem picture_clause_packed_example:
  "parse_picture_clause ''S9(7)V99'' = Inr (7, ''NUMERIC'')
   \<and> calculate_field_length
        \<lparr>name = ''SALARY'', level = ''03'', type_f = ''COMP-3'', picture = ''S9(7)V99'',
         length_f = 0, position = 1, occurs = 1, redefines = None, value_f = None,
         sign = None, usage = Some ''PACKED-DECIMAL'', description = ''''\<rparr> = Inr 4"
  by code_simp

section \<open>Byte transcoder\<close>

text \<open>
  C2, as stated, fails: a field of type INDEX or POINTER is not in the list of binary types
  of \<^verbatim>\<open>convert_field_data\<close>, so its bytes go through the character table: the byte
  \<^verbatim>\<open>0x40\<close> comes out as \<^verbatim>\<open>0x20\<close>.
\<close>

theorem index_pointer_transcoded_counterexample:
  "fst (convert_field_data sample_config (sample_field ''INDEX'' 1 1) [0x40]) = [0x20]
   \<and> fst (convert_field_data sample_config (sample_field ''POINTER'' 1 1) [0x40]) = [0x20]"
  by code_simp

text \<open>
  C2, amended: for every field whose type is COMP, COMP-1, COMP-2, COMP-4 or COMP-5 (the
  kinds Binary, Comp1 and Comp2), the transcoder returns the raw input bytes unmodified.
\<close>

theorem binary_kinds_pass_through:
  "type_f field \<in> set [''COMP'', ''COMP-1'', ''COMP-2'', ''COMP-4'', ''COMP-5''] \<Longrightarrow>
   convert_field_data config field field_data = (field_data, ''BINARY'')"
  by (auto simp: convert_field_data_def)

text \<open>C2, amended, at a COMP-1 field holding the bytes \<^verbatim>\<open>40 28\<close>.\<close>

theorem binary_kinds_pass_through_witness:
  "type_f (sample_field ''COMP-1'' 1 2) \<in> set [''COMP'', ''COMP-1'', ''COMP-2'', ''COMP-4'', ''COMP-5'']
   \<and> convert_field_data sample_config (sample_field ''COMP-1'' 1 2) [0x40, 0x28]
       = ([0x40, 0x28], ''BINARY'')"
proof -
  have h: "type_f (sample_field ''COMP-1'' 1 2)
      \<in> set [''COMP'', ''COMP-1'', ''COMP-2'', ''COMP-4'', ''COMP-5'']"
    by (simp add: sample_field_def)
  from binary_kinds_pass_through [OF h] h show ?thesis by simp
qed

text \<open>Fields of type INDEX and POINTER take the display path.\<close>

lemma index_pointer_display:
  "type_f field \<in> set [''INDEX'', ''POINTER''] \<Longrightarrow>
   convert_field_data config field field_data =
     (process_sosi_codes config (map convert_ebcdic_byte field_data), ''DISPLAY'')"
  by (auto simp: convert_field_data_def)

section \<open>Field slices\<close>

text \<open>
  A field that starts inside the record (or at its end) and runs past it: the tail of the
  record, then zero bytes, the declared length in all.
\<close>

lemma field_data_padded:
  assumes "1 \<le> position f" and "position f - 1 \<le> int (length r)"
    and "position f - 1 + length_f f > int (length r)"
    and "position f - 1 + length_f f - int (length r) \<le> mb"
  shows "field_data_of mb f r =
           Some (drop (nat (position f - 1)) r
                 @ replicate (nat (position f - 1 + length_f f) - length r) 0x00)"
    and "int (length (the (field_data_of mb f r))) = length_f f"
proof -
  have idx: "slice_index (length r) (position f - 1) = nat (position f - 1)"
    using assms by (simp add: slice_index_def)
  have cnt: "nat (length_f f - (int (length r) - (position f - 1)))
      = nat (position f - 1 + length_f f) - length r"
    using assms by linarith
  have ok: "\<not> length_f f - (int (length r) - (position f - 1)) > mb"
    using assms by linarith
  show "field_data_of mb f r =
           Some (drop (nat (position f - 1)) r
                 @ replicate (nat (position f - 1 + length_f f) - length r) 0x00)"
    using assms(3) ok by (simp add: field_data_of_def Let_def slice_from_def idx cnt)
  then show "int (length (the (field_data_of mb f r))) = length_f f"
    using assms by simp
qed

text \<open>
  A field that starts beyond the end of the record: zero bytes only, and more of them than
  the declared length, by the distance between the end of the record and the start.
\<close>

lemma field_data_beyond:
  assumes "position f - 1 > int (length r)" and "0 \<le> length_f f"
    and "length_f f + (position f - 1 - int (length r)) \<le> mb"
  shows "field_data_of mb f r
           = Some (replicate (nat (length_f f + (position f - 1 - int (length r)))) 0x00)"
proof -
  have idx: "slice_index (length r) (position f - 1) = length r"
    using assms by (simp add: slice_index_def)
  have eq: "length_f f - (int (length r) - (position f - 1))
      = length_f f + (position f - 1 - int (length r))"
    by simp
  have ok: "\<not> length_f f - (int (length r) - (position f - 1)) > mb"
    using assms by linarith
  show ?thesis
    using assms(1,2) ok by (simp add: field_data_of_def Let_def slice_from_def idx eq)
qed

text \<open>
  C5: a field whose slice extends past the end of the record is handed to the transcoder
  as the available tail followed by zero bytes, the declared length in all. With the
  layout P PIC X(6), Q PIC X(2) and a record of 4 bytes, the field P (start inside the
  record) gets its 6 bytes, and the field Q (position 7, length 2, start beyond the end)
  gets 4 zero bytes instead of 2.
\<close>

theorem field_padding_overrun_example:
  "map (\<lambda>f. (name f, position f, length_f f,
              field_data_of sys_maxsize f [0xF1, 0xF2, 0xF3, 0xF4]))
     (case parse_layout_file (sample_config\<lparr>record_length := 4\<rparr>) sample_codecs sample_match
             (Some overrun_layout) of
        Inr fs \<Rightarrow> fs
      | Inl e \<Rightarrow> [])
   = [(''P'', 1, 6, Some [0xF1, 0xF2, 0xF3, 0xF4, 0x00, 0x00]),
      (''Q'', 7, 2, Some [0x00, 0x00, 0x00, 0x00])]"
  by code_simp

text \<open>
  A field longer than the machine builds: the zero padding raises, on every record.
\<close>

lemma field_padding_raises_example:
  "field_data_of sys_maxsize (sample_field ''PIC'' 1 100000000000000000000) [0xF1] = None"
  by code_simp

section \<open>Record loop\<close>

text \<open>
  The loop over the fields: its flag is set when the zero padding of a field raises;
  otherwise it appends the converted fields. It touches no counter but that of the
  fields.
\<close>

lemma convert_fields_flag:
  "fst (convert_fields mb config fs d (cr, st)) = fields_raise mb fs d"
  by (induction fs arbitrary: cr st)
     (auto simp: fields_raise_def Let_def split: option.splits)

lemma convert_fields_bytes:
  "\<not> fields_raise mb fs d \<Longrightarrow>
   fst (snd (convert_fields mb config fs d (cr, st))) =
     cr @ concat (map (\<lambda>f. fst (convert_field_data config f (the (field_data_of mb f d)))) fs)"
  by (induction fs arbitrary: cr st)
     (auto simp: fields_raise_def Let_def split: option.splits)

lemma convert_fields_stats:
  "conversion_errors (snd (snd (convert_fields mb config fs d (cr, st)))) = conversion_errors st"
  "records_converted (snd (snd (convert_fields mb config fs d (cr, st)))) = records_converted st"
  "bytes_processed (snd (snd (convert_fields mb config fs d (cr, st)))) = bytes_processed st"
  by (induction fs arbitrary: cr st; simp add: Let_def split: option.splits)+

text \<open>The body of the loop on a read that raises, and on a read of a full record.\<close>

lemma try_body_read_raises:
  "try_body mb config fs ReadRaises acc = (Raised, acc)"
  by (simp add: try_body_def)

lemma try_body_full:
  assumes "\<not> int (length d) < record_length config"
  shows "fst (try_body mb config fs (ReadReturns d w) acc)
           = (if raises mb fs (ReadReturns d w) then Raised else Completed)"
    and "conversion_errors (fst (snd (try_body mb config fs (ReadReturns d w) acc)))
           = conversion_errors (fst acc)"
    and "records_converted (fst (snd (try_body mb config fs (ReadReturns d w) acc)))
           = records_converted (fst acc) + (if raises mb fs (ReadReturns d w) then 0 else 1)"
    and "bytes_processed (fst (snd (try_body mb config fs (ReadReturns d w) acc)))
           = bytes_processed (fst acc) + int (length d)"
    and "snd (snd (try_body mb config fs (ReadReturns d w) acc))
           = snd acc @ (if raises mb fs (ReadReturns d w) then []
                        else record_output mb config fs d)"
proof -
  have empty: "\<not> fields_raise mb [] d" by (simp add: fields_raise_def)
  show "fst (try_body mb config fs (ReadReturns d w) acc)
           = (if raises mb fs (ReadReturns d w) then Raised else Completed)"
    using assms empty
    by (simp add: try_body_def Let_def raises_def split_beta convert_fields_flag)
  show "conversion_errors (fst (snd (try_body mb config fs (ReadReturns d w) acc)))
           = conversion_errors (fst acc)"
    using assms
    by (simp add: try_body_def Let_def split_beta convert_fields_stats)
  show "records_converted (fst (snd (try_body mb config fs (ReadReturns d w) acc)))
           = records_converted (fst acc) + (if raises mb fs (ReadReturns d w) then 0 else 1)"
    using assms empty
    by (simp add: try_body_def Let_def raises_def split_beta convert_fields_flag
        convert_fields_stats)
  show "bytes_processed (fst (snd (try_body mb config fs (ReadReturns d w) acc)))
           = bytes_processed (fst acc) + int (length d)"
    using assms
    by (simp add: try_body_def Let_def split_beta convert_fields_stats)
  show "snd (snd (try_body mb config fs (ReadReturns d w) acc))
           = snd acc @ (if raises mb fs (ReadReturns d w) then []
                        else record_output mb config fs d)"
    using assms empty
    by (simp add: try_body_def Let_def raises_def split_beta convert_fields_flag
        record_output_def convert_fields_bytes)
qed

text \<open>
  The loop, when no read is short: every iteration that raises adds one to the error
  counter, every other iteration adds one converted record and its bytes to the output.
\<close>

lemma record_loop_no_break:
  assumes "list_all (\<lambda>i. \<not> short_read config (io i)) idxs"
  shows "conversion_errors (fst (record_loop mb config fs io idxs acc))
           = conversion_errors (fst acc)
             + int (length (filter (\<lambda>i. raises mb fs (io i)) idxs))
       \<and> records_converted (fst (record_loop mb config fs io idxs acc))
           = records_converted (fst acc)
             + int (length (filter (\<lambda>i. \<not> raises mb fs (io i)) idxs))
       \<and> bytes_processed (fst (record_loop mb config fs io idxs acc))
           = bytes_processed (fst acc) + sum_list (map (\<lambda>i. bytes_read (io i)) idxs)
       \<and> snd (record_loop mb config fs io idxs acc)
           = snd acc @ concat (map (\<lambda>i. written_record mb config fs (io i))
                                 (filter (\<lambda>i. \<not> raises mb fs (io i)) idxs))"
  using assms
proof (induction idxs arbitrary: acc)
  case Nil
  then show ?case by simp
next
  case (Cons i idxs)
  from Cons.prems have rest: "list_all (\<lambda>i. \<not> short_read config (io i)) idxs"
    and here: "\<not> short_read config (io i)" by simp_all
  note IH = Cons.IH [OF rest]
  show ?case
  proof (cases "io i")
    case ReadRaises
    have step: "record_loop mb config fs io (i # idxs) acc =
        record_loop mb config fs io idxs
          ((fst acc)\<lparr>conversion_errors := conversion_errors (fst acc) + 1\<rparr>, snd acc)"
      by (cases acc) (simp add: ReadRaises try_body_read_raises)
    show ?thesis
      unfolding step
      using IH [of "((fst acc)\<lparr>conversion_errors := conversion_errors (fst acc) + 1\<rparr>, snd acc)"]
      by (simp add: ReadRaises raises_def bytes_read_def)
  next
    case (ReadReturns d w)
    with here have full: "\<not> int (length d) < record_length config"
      by (simp add: short_read_def)
    let ?R = "raises mb fs (ReadReturns d w)"
    obtain oc st1 out1 where tb: "try_body mb config fs (ReadReturns d w) acc = (oc, st1, out1)"
      by (metis prod_cases3)
    from try_body_full [OF full, of mb fs w acc] tb
    have oc: "oc = (if ?R then Raised else Completed)"
      and ce: "conversion_errors st1 = conversion_errors (fst acc)"
      and rc: "records_converted st1 = records_converted (fst acc) + (if ?R then 0 else 1)"
      and bp: "bytes_processed st1 = bytes_processed (fst acc) + int (length d)"
      and ou: "out1 = snd acc @ (if ?R then [] else record_output mb config fs d)"
      by simp_all
    show ?thesis
    proof (cases ?R)
      case True
      have step: "record_loop mb config fs io (i # idxs) acc =
          record_loop mb config fs io idxs
            (st1\<lparr>conversion_errors := conversion_errors st1 + 1\<rparr>, out1)"
        using tb oc True by (simp add: ReadReturns)
      show ?thesis
        unfolding step
        using IH [of "(st1\<lparr>conversion_errors := conversion_errors st1 + 1\<rparr>, out1)"]
          ce rc bp ou True
        by (simp add: ReadReturns bytes_read_def)
    next
      case False
      have step: "record_loop mb config fs io (i # idxs) acc =
          record_loop mb config fs io idxs (st1, out1)"
        using tb oc False by (simp add: ReadReturns)
      show ?thesis
        unfolding step
        using IH [of "(st1, out1)"] ce rc bp ou False
        by (simp add: ReadReturns bytes_read_def written_record_def)
    qed
  qed
qed


text \<open>A run that is not aborted outside its loop is the loop.\<close>

lemma convert_dataset_loop:
  assumes "parse_layout_file config cd fm (env_layout env) = Inr fs"
    and "env_input_size env = Some file_size"
    and "\<not> aborts_outside_loop config cd fm env"
  shows "convert_dataset config cd fm env =
     Inr (record_loop (env_max_bytes env) config fs (env_io env)
            [0..<nat (int file_size div record_length config)] (initial_stats, []))"
proof -
  have "(if truthy (layout_file config)
         then parse_layout_file config cd fm (env_layout env) else Inr [])
      = Inr fs"
    using assms(1) by (auto simp: parse_layout_file_def)
  then show ?thesis
    using assms(2,3) by (simp add: convert_dataset_def Let_def aborts_outside_loop_def)
qed

text \<open>The run is aborted exactly by what happens outside its loop.\<close>

lemma convert_dataset_aborts:
  "isl (convert_dataset config cd fm env) = aborts_outside_loop config cd fm env"
proof (cases "parse_layout_file config cd fm (env_layout env)")
  case (Inl e)
  then have "truthy (layout_file config)"
    by (auto simp: parse_layout_file_def split: if_splits)
  with Inl show ?thesis
    by (simp add: convert_dataset_def aborts_outside_loop_def)
next
  case (Inr fs)
  have "(if truthy (layout_file config)
         then parse_layout_file config cd fm (env_layout env) else Inr [])
      = Inr fs"
    using Inr by (auto simp: parse_layout_file_def)
  then show ?thesis
    using Inr
    by (auto simp: convert_dataset_def aborts_outside_loop_def Let_def split: option.splits)
qed

text \<open>
  C6, as stated, fails in its last clause: with the input file present and no layout
  configured, a record length of 0 aborts the run (\<^verbatim>\<open>ZeroDivisionError\<close>), and so does
  an output path without a directory (\<^verbatim>\<open>os.makedirs\<close> on the empty name).
\<close>

theorem abort_causes_counterexample:
  "env_input_size (sample_env None 6 faulty_io) = Some 6
   \<and> parse_layout_file raw_config sample_codecs sample_match
        (env_layout (sample_env None 6 faulty_io)) = Inr []
   \<and> convert_dataset (raw_config\<lparr>record_length := 0\<rparr>) sample_codecs sample_match
        (sample_env None 6 faulty_io) = Inl ZeroDivisionError
   \<and> convert_dataset (raw_config\<lparr>output_file := ''a.out''\<rparr>) sample_codecs sample_match
        (sample_env None 6 faulty_io) = Inl OutputDirectoryError"
  by code_simp

text \<open>
  C6, amended: in a run over N records, an exception raised while processing record k adds
  exactly one to \<^verbatim>\<open>conversion_errors\<close> for that record, the run returns its statistics, and
  the records after k are read and converted as the records before it are: the error
  counter is the number of raising records before k, plus one, plus the number of raising
  records after k, and the output is the converted records before k followed by the
  converted records after k. No exception raised while processing a record aborts the
  run: the run is aborted only outside its loop, by a layout failure, a missing input
  file, a record length of 0, or a failure to create the output directory or to open or
  close the files.
\<close>

theorem record_errors_contained:
  assumes layout: "parse_layout_file config cd fm (env_layout env) = Inr fs"
    and input: "env_input_size env = Some file_size"
    and start: "\<not> aborts_outside_loop config cd fm env"
    and k: "k < nat (int file_size div record_length config)"
    and exn: "raises (env_max_bytes env) fs (env_io env k)"
    and full: "list_all (\<lambda>i. \<not> short_read config (env_io env i))
                 [0..<nat (int file_size div record_length config)]"
  shows "(case convert_dataset config cd fm env of
            Inl e \<Rightarrow> False
          | Inr (st, out) \<Rightarrow>
              conversion_errors st
                = int (length (filter (\<lambda>i. raises (env_max_bytes env) fs (env_io env i))
                                 [0..<k])) + 1
                  + int (length (filter (\<lambda>i. raises (env_max_bytes env) fs (env_io env i))
                                   [Suc k..<nat (int file_size div record_length config)]))
              \<and> records_converted st
                = int (length (filter (\<lambda>i. \<not> raises (env_max_bytes env) fs (env_io env i))
                                 [0..<k]))
                  + int (length (filter (\<lambda>i. \<not> raises (env_max_bytes env) fs (env_io env i))
                                   [Suc k..<nat (int file_size div record_length config)]))
              \<and> out
                = concat (map (\<lambda>i. written_record (env_max_bytes env) config fs (env_io env i))
                            (filter (\<lambda>i. \<not> raises (env_max_bytes env) fs (env_io env i))
                               [0..<k]))
                  @ concat (map (\<lambda>i. written_record (env_max_bytes env) config fs
                                        (env_io env i))
                              (filter (\<lambda>i. \<not> raises (env_max_bytes env) fs (env_io env i))
                                 [Suc k..<nat (int file_size div record_length config)])))
       \<and> isl (convert_dataset config cd fm env') = aborts_outside_loop config cd fm env'"
proof
  let ?N = "nat (int file_size div record_length config)"
  have idxs: "[0..<?N] = [0..<k] @ k # [Suc k..<?N]"
    using k by (metis less_imp_le_nat upt_add_eq_append upt_conv_Cons le0 le_add_diff_inverse plus_nat.add_0)
  have run: "convert_dataset config cd fm env =
      Inr (record_loop (env_max_bytes env) config fs (env_io env) [0..<?N] (initial_stats, []))"
    by (rule convert_dataset_loop [OF layout input start])
  from record_loop_no_break [OF full, of "env_max_bytes env" fs "(initial_stats, [])"]
  show "case convert_dataset config cd fm env of
            Inl e \<Rightarrow> False
          | Inr (st, out) \<Rightarrow>
              conversion_errors st
                = int (length (filter (\<lambda>i. raises (env_max_bytes env) fs (env_io env i))
                                 [0..<k])) + 1
                  + int (length (filter (\<lambda>i. raises (env_max_bytes env) fs (env_io env i))
                                   [Suc k..<?N]))
              \<and> records_converted st
                = int (length (filter (\<lambda>i. \<not> raises (env_max_bytes env) fs (env_io env i))
                                 [0..<k]))
                  + int (length (filter (\<lambda>i. \<not> raises (env_max_bytes env) fs (env_io env i))
                                   [Suc k..<?N]))
              \<and> out
                = concat (map (\<lambda>i. written_record (env_max_bytes env) config fs (env_io env i))
                            (filter (\<lambda>i. \<not> raises (env_max_bytes env) fs (env_io env i))
                               [0..<k]))
                  @ concat (map (\<lambda>i. written_record (env_max_bytes env) config fs
                                        (env_io env i))
                              (filter (\<lambda>i. \<not> raises (env_max_bytes env) fs (env_io env i))
                                 [Suc k..<?N]))"
    unfolding run
    by (simp add: split_beta idxs exn initial_stats_def)
  show "isl (convert_dataset config cd fm env') = aborts_outside_loop config cd fm env'"
    by (rule convert_dataset_aborts)
qed

text \<open>
  C6, amended, on three records of 2 bytes where the read of the second raises: one error,
  two records converted, the output holds the first and the third record.
\<close>

theorem record_errors_contained_witness:
  "parse_layout_file raw_config sample_codecs sample_match
     (env_layout (sample_env None 6 faulty_io)) = Inr []
   \<and> env_input_size (sample_env None 6 faulty_io) = Some 6
   \<and> \<not> aborts_outside_loop raw_config sample_codecs sample_match (sample_env None 6 faulty_io)
   \<and> 1 < nat (int 6 div record_length raw_config)
   \<and> raises (env_max_bytes (sample_env None 6 faulty_io)) []
        (env_io (sample_env None 6 faulty_io) 1)
   \<and> list_all (\<lambda>i. \<not> short_read raw_config (env_io (sample_env None 6 faulty_io) i))
        [0..<nat (int 6 div record_length raw_config)]
   \<and> (case convert_dataset raw_config sample_codecs sample_match
              (sample_env None 6 faulty_io) of
         Inl e \<Rightarrow> False
       | Inr (st, out) \<Rightarrow>
           conversion_errors st = 1 \<and> records_converted st = 2
           \<and> out = [0x31, 0x32, 0x41, 0x20])"
proof -
  let ?env = "sample_env None 6 faulty_io"
  let ?mb = "env_max_bytes ?env"
  have layout: "parse_layout_file raw_config sample_codecs sample_match (env_layout ?env)
      = Inr []" by code_simp
  have input: "env_input_size ?env = Some 6" by code_simp
  have start: "\<not> aborts_outside_loop raw_config sample_codecs sample_match ?env"
    by code_simp
  have k: "1 < nat (int 6 div record_length raw_config)" by code_simp
  have exn: "raises ?mb [] (env_io ?env 1)" by code_simp
  have full: "list_all (\<lambda>i. \<not> short_read raw_config (env_io ?env i))
        [0..<nat (int 6 div record_length raw_config)]" by code_simp
  have N: "nat (int 6 div record_length raw_config) = 3" by code_simp
  have a: "filter (\<lambda>i. raises ?mb [] (env_io ?env i)) [0..<1] = []" by code_simp
  have b: "filter (\<lambda>i. raises ?mb [] (env_io ?env i)) [Suc 1..<3] = []" by code_simp
  have c: "filter (\<lambda>i. \<not> raises ?mb [] (env_io ?env i)) [0..<1] = [0]" by code_simp
  have d: "filter (\<lambda>i. \<not> raises ?mb [] (env_io ?env i)) [Suc 1..<3] = [2]" by code_simp
  have e: "written_record ?mb raw_config [] (env_io ?env 0) = [0x31, 0x32]" by code_simp
  have f: "written_record ?mb raw_config [] (env_io ?env 2) = [0x41, 0x20]" by code_simp
  note main = record_errors_contained [OF layout input start k exn full,
      THEN conjunct1, unfolded N a b c d]
  have out: "concat (map (\<lambda>i. written_record ?mb raw_config [] (env_io ?env i)) [0])
      @ concat (map (\<lambda>i. written_record ?mb raw_config [] (env_io ?env i)) [2])
      = [0x31, 0x32, 0x41, 0x20]"
    by (simp add: e f)
  from main have res: "case convert_dataset raw_config sample_codecs sample_match ?env of
         Inl e \<Rightarrow> False
       | Inr (st, out) \<Rightarrow>
           conversion_errors st = 1 \<and> records_converted st = 2
           \<and> out = [0x31, 0x32, 0x41, 0x20]"
    unfolding out by (simp split: sum.splits prod.splits)
  from layout input start k exn full res show ?thesis by blast
qed






section \<open>Copybook layout parser\<close>

text \<open>The cursor chain of a list of fields extended by one field.\<close>

lemma advance_foldl_append: "end_cursor cur (fs @ [f]) = advance (end_cursor cur fs) f"
  by (simp add: end_cursor_def)

lemma positions_ok_append:
  "positions_ok cur (fs @ [f]) = (positions_ok cur fs \<and> position f = end_cursor cur fs)"
  by (induction fs arbitrary: cur) (auto simp: end_cursor_def)

text \<open>One line keeps the invariant: the fields sit on the cursor chain, which ends at the cursor.\<close>

lemma parse_line_invariant:
  assumes "parse_line fm line acc = Inr acc1"
    and "positions_ok c0 (fst acc)" and "end_cursor c0 (fst acc) = snd acc"
  shows "positions_ok c0 (fst acc1) \<and> end_cursor c0 (fst acc1) = snd acc1"
  using assms
  by (auto simp: parse_line_def Let_def positions_ok_append advance_foldl_append advance_def
      truthy_def split: option.splits prod.splits sum.splits if_splits)

lemma parse_lines_invariant:
  assumes "parse_lines fm lines acc = Inr acc1"
    and "positions_ok c0 (fst acc)" and "end_cursor c0 (fst acc) = snd acc"
  shows "positions_ok c0 (fst acc1) \<and> end_cursor c0 (fst acc1) = snd acc1"
  using assms
proof (induction lines arbitrary: acc)
  case Nil
  then show ?case by simp
next
  case (Cons line lines)
  from Cons.prems(1) obtain acc2 where
    one: "parse_line fm line acc = Inr acc2" and
    rest: "parse_lines fm lines acc2 = Inr acc1"
    by (auto split: sum.splits)
  from parse_line_invariant [OF one Cons.prems(2,3)]
  have "positions_ok c0 (fst acc2)" and "end_cursor c0 (fst acc2) = snd acc2" by simp_all
  then show ?case by (rule Cons.IH [OF rest])
qed

text \<open>On the cursor chain, a field sits where the field before it leaves the cursor.\<close>

lemma positions_ok_next:
  "positions_ok cur fs \<Longrightarrow> Suc i < length fs \<Longrightarrow>
   position (fs ! Suc i) = advance (position (fs ! i)) (fs ! i)"
proof (induction fs arbitrary: cur i)
  case Nil
  then show ?case by simp
next
  case (Cons f fs)
  show ?case
  proof (cases i)
    case 0
    with Cons.prems show ?thesis by (cases fs) auto
  next
    case (Suc j)
    with Cons.prems Cons.IH [of "advance cur f" j] show ?thesis by simp
  qed
qed

text \<open>The fields of a parsed layout sit on the cursor chain that starts at 1.\<close>

lemma parse_layout_positions:
  assumes "parse_layout_file config cd fm layout = Inr fs"
  shows "positions_ok 1 fs"
proof (cases "fs = []")
  case True
  then show ?thesis by simp
next
  case False
  with assms obtain content cur where
    fs: "parse_lines fm (split_lines content) ([], 1) = Inr (fs, cur)"
    by (auto simp: parse_layout_file_def Let_def
        split: if_splits option.splits sum.splits prod.splits)
  from parse_lines_invariant [OF fs, of 1]
  show ?thesis by (simp add: end_cursor_def)
qed

text \<open>
  C9: for every parsed layout and every index i, if field i does not declare REDEFINES
  then the position of field i+1 is the position of field i plus the length of field i.
\<close>

theorem positions_follow_cursor:
  assumes "parse_layout_file config cd fm layout = Inr fs"
    and "Suc i < length fs"
    and "\<not> truthy (redefines (fs ! i))"
  shows "position (fs ! Suc i) = position (fs ! i) + length_f (fs ! i)"
  using positions_ok_next [OF parse_layout_positions [OF assms(1)] assms(2)] assms(3)
  by (simp add: advance_def)

text \<open>C9, on the layout ID PIC 9(3), NAME PIC X(5): NAME is at 1 + 3 = 4.\<close>

theorem positions_follow_cursor_witness:
  "parse_layout_file id_name_config sample_codecs id_name_match (Some id_name_layout)
     = Inr id_name_fields
   \<and> Suc 0 < length id_name_fields
   \<and> \<not> truthy (redefines (id_name_fields ! 0))
   \<and> position (id_name_fields ! Suc 0) = 4
   \<and> position (id_name_fields ! 0) + length_f (id_name_fields ! 0) = 4"
proof -
  have layout: "parse_layout_file id_name_config sample_codecs id_name_match (Some id_name_layout)
     = Inr id_name_fields" by code_simp
  have i: "Suc 0 < length id_name_fields" by code_simp
  have r: "\<not> truthy (redefines (id_name_fields ! 0))" by code_simp
  have p: "position (id_name_fields ! 0) + length_f (id_name_fields ! 0) = 4" by code_simp
  from positions_follow_cursor [OF layout i r] layout i r p show ?thesis by simp
qed

text \<open>A field that declares REDEFINES leaves the cursor where it is: the next field shares its position.\<close>

lemma redefining_field_position:
  assumes "parse_layout_file config cd fm layout = Inr fs"
    and "Suc i < length fs"
    and "truthy (redefines (fs ! i))"
  shows "position (fs ! Suc i) = position (fs ! i)"
  using positions_ok_next [OF parse_layout_positions [OF assms(1)] assms(2)] assms(3)
  by (simp add: advance_def)

text \<open>
  C4: a field that declares REDEFINES of an earlier field is at the position of that
  field, and does not advance the cursor. With the layout A PIC X(5), B PIC X(3)
  REDEFINES A, C PIC X(2), the parser leaves the cursor alone (C is at 6, where B is), but
  it puts B at the cursor, 6, and not at 1, the position of A.
\<close>

theorem redefines_position_example:
  "map (\<lambda>f. (name f, redefines f, position f, length_f f))
     (case parse_layout_file sample_config sample_codecs sample_match (Some redefines_layout) of
        Inr fs \<Rightarrow> fs
      | Inl e \<Rightarrow> [])
   = [(''A'', None, 1, 5), (''B'', Some ''A'', 6, 3), (''C'', None, 6, 2)]"
  by code_simp

text \<open>A list of codecs that ends with latin1 decodes every byte sequence.\<close>

lemma try_encodings_last:
  "try_encodings (ds @ [latin1]) raw \<noteq> None"
  by (induction ds) (simp_all add: latin1_def split: option.splits)

text \<open>The only exception of the loop over the lines is the one of \<^verbatim>\<open>int\<close>.\<close>

lemma int_of_digits_error: "int_of_digits s = Inl e \<Longrightarrow> e = IntValueError"
  by (simp add: int_of_digits_def split: if_splits)

lemma calculate_field_length_error:
  "calculate_field_length f = Inl e \<Longrightarrow> e = IntValueError"
  by (auto simp: calculate_field_length_def parse_picture_clause_def Let_def
      dest: int_of_digits_error split: sum.splits option.splits prod.splits)

lemma parse_line_error: "parse_line fm line acc = Inl e \<Longrightarrow> e = IntValueError"
  by (auto simp: parse_line_def Let_def
      dest: int_of_digits_error calculate_field_length_error
      split: sum.splits option.splits prod.splits if_splits)

lemma parse_lines_error: "parse_lines fm lines acc = Inl e \<Longrightarrow> e = IntValueError"
  by (induction lines arbitrary: acc) (auto dest: parse_line_error split: sum.splits)

text \<open>Helpers to run the parser on a long line without unfolding it.\<close>

lemma ascii_decode_encode:
  assumes "\<forall>c \<in> set s. (of_char c :: nat) < 128"
  shows "ascii_decode (encode_ascii s) = Some s"
proof -
  have one: "(of_nat (of_char c) :: byte) < 0x80
      \<and> char_of (unat (of_nat (of_char c :: nat) :: byte)) = c"
    if "(of_char c :: nat) < 128" for c
  proof -
    from that have u: "unat (of_nat (of_char c :: nat) :: byte) = of_char c"
      by (simp add: unat_of_nat)
    have "unat (of_nat (of_char c :: nat) :: byte) < unat (0x80 :: byte)"
      using that by (simp add: u)
    then have "(of_nat (of_char c :: nat) :: byte) < 0x80"
      by (simp only: word_less_nat_alt)
    with u show ?thesis by simp
  qed
  have all: "list_all (\<lambda>b. b < 0x80) (encode_ascii s)"
    using assms one by (auto simp: encode_ascii_def list_all_iff)
  have decoded: "map (\<lambda>b. char_of (unat b)) (encode_ascii s) = s"
    using assms one by (induction s) (auto simp: encode_ascii_def)
  show ?thesis by (simp add: ascii_decode_def all decoded)
qed

lemma universal_newlines_id:
  "CHR 0x0D \<notin> set s \<Longrightarrow> universal_newlines s = s"
  by (induction s rule: universal_newlines.induct) auto

lemma split_lines_one:
  "CHR 0x0A \<notin> set s \<Longrightarrow> split_lines (s @ [CHR 0x0A]) = [s, []]"
  by (induction s) auto

lemma rstrip_last: "\<not> isspace c \<Longrightarrow> rstrip (xs @ [c]) = xs @ [c]"
  by (simp add: rstrip_def)

lemma strip_first_last:
  "\<not> isspace a \<Longrightarrow> \<not> isspace c \<Longrightarrow> strip (a # xs @ [c]) = a # xs @ [c]"
  using rstrip_last [of c "a # xs"] by (simp add: strip_def lstrip_def)

lemma int_of_digits_long: "4300 < length s \<Longrightarrow> int_of_digits s = Inl IntValueError"
  by (simp add: int_of_digits_def)

lemma long_level_line_shape:
  "long_level_line
     = CHR ''1'' # (replicate 4300 (CHR ''1'') @ '' A PIC X(1'') @ [CHR '')'']"
proof -
  have "replicate 4301 (CHR ''1'') = CHR ''1'' # replicate 4300 (CHR ''1'')"
    by (simp add: replicate_Suc [symmetric] del: replicate_Suc)
  then show ?thesis by (simp add: long_level_line_def long_level_def)
qed

lemma long_level_line_chars:
  "set long_level_line = set ''1 APICX()''"
  by (auto simp: long_level_line_def long_level_def)

lemma parse_long_level_line:
  "parse_line long_level_match long_level_line acc = Inl IntValueError"
proof -
  have sp1: "\<not> isspace (CHR ''1'')" and sp2: "\<not> isspace (CHR '')'')"
    by (simp_all add: isspace_def)
  have r: "rstrip long_level_line = long_level_line"
    unfolding long_level_line_shape
    using rstrip_last [OF sp2, of "CHR ''1'' # (replicate 4300 (CHR ''1'') @ '' A PIC X(1'')"]
    by simp
  have s: "strip long_level_line = long_level_line"
    unfolding long_level_line_shape by (rule strip_first_last [OF sp1 sp2])
  have ne: "long_level_line \<noteq> []" and hd: "take (Suc 0) long_level_line = ''1''"
    unfolding long_level_line_shape by simp_all
  have m: "long_level_match long_level_line
      = Some (long_level, ''A'', Some ''X(1)'', None, None, None, None, [])"
    by (simp add: long_level_match_def)
  have i: "int_of_digits long_level = Inl IntValueError"
    by (rule int_of_digits_long) (simp add: long_level_def)
  show ?thesis
    by (simp add: parse_line_def r s ne hd m i)
qed

text \<open>
  C10, as stated, fails: the layout file of one line whose level number has 4301 digits
  exists, decodes and holds a field line, and \<^verbatim>\<open>parse_layout_file\<close> fails on it, with
  the \<^verbatim>\<open>ValueError\<close> of \<^verbatim>\<open>int\<close>: neither by producing zero fields nor by the file
  being absent.
\<close>

theorem layout_int_error_counterexample:
  "parse_layout_file sample_config sample_codecs long_level_match (Some long_level_layout)
     = Inl IntValueError"
proof -
  have ascii: "\<forall>c \<in> set long_level_line. (of_char c :: nat) < 128"
    unfolding long_level_line_chars by simp
  have nolf: "CHR 0x0A \<notin> set long_level_line" and nocr: "CHR 0x0D \<notin> set long_level_line"
    unfolding long_level_line_chars by simp_all
  have ascii': "\<forall>c \<in> set (long_level_line @ [CHR 0x0A]). (of_char c :: nat) < 128"
    using ascii by simp
  have nocr': "CHR 0x0D \<notin> set (long_level_line @ [CHR 0x0A])"
    using nocr by simp
  have dec: "try_encodings (encodings sample_codecs) long_level_layout
      = Some (long_level_line @ [CHR 0x0A])"
    by (simp add: encodings_def sample_codecs_def long_level_layout_def
        ascii_decode_encode [OF ascii'] universal_newlines_id [OF nocr'])
  have lines: "parse_lines long_level_match (split_lines (long_level_line @ [CHR 0x0A])) ([], 1)
      = Inl IntValueError"
    by (simp add: split_lines_one [OF nolf] parse_long_level_line)
  have cfg: "truthy (layout_file sample_config)"
    by (simp add: sample_config_def truthy_def)
  show ?thesis
    by (simp add: parse_layout_file_def cfg dec lines)
qed

text \<open>
  On an existing layout file the parser returns its fields or raises for zero fields
  or on a digit string that \<^verbatim>\<open>int\<close> refuses; on an absent one it raises for the
  absence, unless no layout is configured.
\<close>

lemma parse_layout_file_results:
  "(parse_layout_file config cd fm (Some raw) = Inl NoFieldDefinitions
    \<or> parse_layout_file config cd fm (Some raw) = Inl IntValueError
    \<or> (\<exists>fs. parse_layout_file config cd fm (Some raw) = Inr fs))
   \<and> (parse_layout_file config cd fm None = Inl LayoutFileNotFound
      \<or> parse_layout_file config cd fm None = Inr [])"
proof -
  have "try_encodings (encodings cd) raw \<noteq> None"
    using try_encodings_last [of "[shift_jis cd, utf_8 cd, cp932 cd]" raw]
    by (simp add: encodings_def)
  then obtain content where c: "try_encodings (encodings cd) raw = Some content"
    by auto
  have absent: "parse_layout_file config cd fm None = Inl LayoutFileNotFound
      \<or> parse_layout_file config cd fm None = Inr []"
    by (simp add: parse_layout_file_def)
  have present: "parse_layout_file config cd fm (Some raw) = Inl NoFieldDefinitions
    \<or> parse_layout_file config cd fm (Some raw) = Inl IntValueError
    \<or> (\<exists>fs. parse_layout_file config cd fm (Some raw) = Inr fs)"
  proof (cases "truthy (layout_file config)")
    case False
    then show ?thesis by (simp add: parse_layout_file_def)
  next
    case True
    show ?thesis
    proof (cases "parse_lines fm (split_lines content) ([], 1)")
      case (Inl e)
      with parse_lines_error [OF Inl] show ?thesis
        by (simp add: parse_layout_file_def True c)
    next
      case (Inr acc)
      then show ?thesis
        by (cases acc; cases "fst acc = []")
           (simp_all add: parse_layout_file_def True c)
    qed
  qed
  from present absent show ?thesis by (rule conjI)
qed

text \<open>
  C10, amended: the last candidate encoding, latin1, decodes every byte sequence, so the
  failure for a file undecodable under all candidate encodings is unreachable: for every
  layout file, \<^verbatim>\<open>parse_layout_file\<close> never fails by decode failure.
\<close>

theorem layout_always_decodes:
  "parse_layout_file config cd fm layout \<noteq> Inl LayoutUndecodable"
proof (cases layout)
  case None
  with parse_layout_file_results [of config cd fm] show ?thesis by auto
next
  case (Some raw)
  with parse_layout_file_results [of config cd fm raw] show ?thesis by auto
qed

end
